theory Spec2Isabelle
  imports Complex_Main "HOL-Library.Word"
begin

section \<open>JavaScript values\<close>

text \<open>
  A JavaScript string is a sequence of UTF-16 code units. The literals of the program
  that are plain ASCII are written with \<open>ascii\<close>; the Chinese literals of the handlers
  are written as their code units.
\<close>

type_synonym js_string = "16 word list"

definition ascii :: "string \<Rightarrow> js_string" where
  "ascii s = map of_char s"

text \<open>
  The values the program itself builds (the request payload and the handler results) are
  strings, arrays and plain objects. An object is its list of properties in insertion
  order, which is the order \<open>JSON.stringify\<close> writes them in.
\<close>

datatype js_data =
    Str js_string
  | Arr "js_data list"
  | Obj "(js_string \<times> js_data) list"

text \<open>Reading a property of an object: \<open>None\<close> when the object has no such property.\<close>

definition get_field :: "js_data \<Rightarrow> js_string \<Rightarrow> js_data option" where
  "get_field d k = (case d of Obj ps \<Rightarrow> map_of ps k | _ \<Rightarrow> None)"

text \<open>
  The assignment \<open>o.k = v\<close> on a property list: an existing property keeps its place,
  a new one goes to the end.
\<close>

fun set_field :: "(js_string \<times> js_data) list \<Rightarrow> js_string \<Rightarrow> js_data \<Rightarrow> (js_string \<times> js_data) list" where
  "set_field [] k v = [(k, v)]"
| "set_field ((k', v') # ps) k v =
     (if k' = k then (k, v) # ps else (k', v') # set_field ps k v)"

text \<open>
  The values \<open>response.json()\<close> may produce. A number is a double: a finite one is
  modelled by the rational it denotes (so \<open>+0\<close> and \<open>-0\<close>, which \<open>===\<close> identifies, are
  both \<open>Finite 0\<close>).
\<close>

datatype js_number = Finite rat | PosInfinity | NegInfinity | NaN

datatype js_value =
    VUndefined
  | VNull
  | VBoolean bool
  | VNumber js_number
  | VString js_string
  | VArray "js_value list"
  | VObject "(js_string \<times> js_value) list"

datatype js_error =
    Error js_string
  | TypeError js_string
  | SyntaxError js_string
  | SystemError js_string

text \<open>
  The property read \<open>v.k\<close>, for the two names the program reads (\<open>errcode\<close>, \<open>errmsg\<close>),
  which no built-in prototype defines: it throws a TypeError on \<open>null\<close> and \<open>undefined\<close>
  (with the message of the engine, which quotes the name between two \<open>0x27\<close>), gives the
  own property of an object, and \<open>undefined\<close> everywhere else.
\<close>

definition get_prop :: "js_value \<Rightarrow> js_string \<Rightarrow> js_error + js_value" where
  "get_prop v k =
     (case v of
        VUndefined \<Rightarrow>
          Inl (TypeError (ascii ''Cannot read properties of undefined (reading '' @
                          [0x27] @ k @ [0x27] @ ascii '')''))
      | VNull \<Rightarrow>
          Inl (TypeError (ascii ''Cannot read properties of null (reading '' @
                          [0x27] @ k @ [0x27] @ ascii '')''))
      | VObject ps \<Rightarrow> Inr (case map_of ps k of Some x \<Rightarrow> x | None \<Rightarrow> VUndefined)
      | _ \<Rightarrow> Inr VUndefined)"

text \<open>The comparison \<open>v === n\<close> of a value with a number.\<close>

definition strict_equals_number :: "js_value \<Rightarrow> js_number \<Rightarrow> bool" where
  "strict_equals_number v n =
     (case v of VNumber x \<Rightarrow> x \<noteq> NaN \<and> n \<noteq> NaN \<and> x = n | _ \<Rightarrow> False)"

section \<open>JSON.stringify on strings, arrays and objects\<close>

definition hex_digit :: "nat \<Rightarrow> 16 word" where
  "hex_digit d = (if d < 10 then of_nat (48 + d) else of_nat (87 + d))"

text \<open>\<open>\uXXXX\<close> with four lower-case hexadecimal digits.\<close>

definition UnicodeEscape :: "16 word \<Rightarrow> js_string" where
  "UnicodeEscape c =
     [0x5C, 0x75] @
     [hex_digit (unat c div 4096 mod 16), hex_digit (unat c div 256 mod 16),
      hex_digit (unat c div 16 mod 16), hex_digit (unat c mod 16)]"

text \<open>
  One code unit that is not part of a surrogate pair: the short escapes for backspace,
  tab, line feed, form feed, carriage return, the double quote and the backslash; a
  \<open>\u\<close> escape for the other control characters and for a lone surrogate; the unit
  itself otherwise.
\<close>

definition QuoteUnit :: "16 word \<Rightarrow> js_string" where
  "QuoteUnit c =
     (if c = 0x08 then [0x5C, 0x62]
      else if c = 0x09 then [0x5C, 0x74]
      else if c = 0x0A then [0x5C, 0x6E]
      else if c = 0x0C then [0x5C, 0x66]
      else if c = 0x0D then [0x5C, 0x72]
      else if c = 0x22 then [0x5C, 0x22]
      else if c = 0x5C then [0x5C, 0x5C]
      else if c < 0x20 \<or> (0xD800 \<le> c \<and> c \<le> 0xDFFF) then UnicodeEscape c
      else [c])"

fun QuoteUnits :: "js_string \<Rightarrow> js_string" where
  "QuoteUnits [] = []"
| "QuoteUnits (c # cs) =
     (if 0xD800 \<le> c \<and> c \<le> 0xDBFF then
        (case cs of
           [] \<Rightarrow> QuoteUnit c
         | d # ds \<Rightarrow>
             if 0xDC00 \<le> d \<and> d \<le> 0xDFFF then c # d # QuoteUnits ds
             else QuoteUnit c @ QuoteUnits cs)
      else QuoteUnit c @ QuoteUnits cs)"

definition QuoteJSONString :: "js_string \<Rightarrow> js_string" where
  "QuoteJSONString s = [0x22] @ QuoteUnits s @ [0x22]"

fun JSON_stringify :: "js_data \<Rightarrow> js_string"
  and stringify_elements :: "js_data list \<Rightarrow> js_string"
  and stringify_properties :: "(js_string \<times> js_data) list \<Rightarrow> js_string" where
  "JSON_stringify (Str s) = QuoteJSONString s"
| "JSON_stringify (Arr xs) = ascii ''['' @ stringify_elements xs @ ascii '']''"
| "JSON_stringify (Obj ps) = ascii ''{'' @ stringify_properties ps @ ascii ''}''"
| "stringify_elements [] = []"
| "stringify_elements [x] = JSON_stringify x"
| "stringify_elements (x # y # ys) =
     JSON_stringify x @ ascii '','' @ stringify_elements (y # ys)"
| "stringify_properties [] = []"
| "stringify_properties [(k, v)] = QuoteJSONString k @ ascii '':'' @ JSON_stringify v"
| "stringify_properties ((k, v) # q # qs) =
     QuoteJSONString k @ ascii '':'' @ JSON_stringify v @ ascii '','' @
     stringify_properties (q # qs)"

text \<open>The decimal digits of a natural number, as a template literal writes it.\<close>

fun decimal :: "nat \<Rightarrow> js_string" where
  "decimal n =
     (if n < 10 then [of_nat (48 + n)]
      else decimal (n div 10) @ [of_nat (48 + n mod 10)])"

declare decimal.simps [simp del]

section \<open>The world outside: network, console\<close>

record http_request =
  req_url :: js_string
  req_method :: js_string
  req_headers :: "(js_string \<times> js_string) list"
  req_body :: js_string

text \<open>
  A response of \<open>fetch\<close>: its status, and what reading the body with \<open>text()\<close> and with
  \<open>json()\<close> gives, each of which may reject.
\<close>

record response =
  status :: nat
  text_result :: "js_error + js_string"
  json_result :: "js_error + js_value"

text \<open>\<open>response.ok\<close> of the Fetch standard: the status is in the range 200 to 299.\<close>

definition ok :: "response \<Rightarrow> bool" where
  "ok r = (200 \<le> status r \<and> status r \<le> 299)"

datatype log_level = LevelLog | LevelInfo | LevelError

datatype log_arg =
    LString js_string
  | LError js_error
  | LValue js_value
  | LUrl js_string

text \<open>
  The observable state: the requests handed to \<open>fetch\<close> so far, oldest first, and the
  lines written to the console.
\<close>

record world =
  sent :: "http_request list"
  console :: "(log_level \<times> log_arg list) list"

text \<open>
  The remote side: what \<open>fetch\<close> settles with for a request, given the requests made
  before it. \<open>Inl\<close> is a rejected promise (a network or transport failure).
\<close>

type_synonym network = "http_request list \<Rightarrow> http_request \<Rightarrow> js_error + response"

definition fetch :: "network \<Rightarrow> http_request \<Rightarrow> world \<Rightarrow> (js_error + response) \<times> world" where
  "fetch net req w = (net (sent w) req, w\<lparr>sent := sent w @ [req]\<rparr>)"

definition console_write :: "log_level \<Rightarrow> log_arg list \<Rightarrow> world \<Rightarrow> world" where
  "console_write lvl args w = w\<lparr>console := console w @ [(lvl, args)]\<rparr>"

text \<open>
  Between the call of \<open>fetch\<close> and the response it settles with stands the redirect
  handling of the Fetch standard. The call at line 20 passes no \<open>redirect\<close> option, so the
  mode is \<open>follow\<close>: a response with a redirect status and a Location header is not
  handed to the caller; \<open>fetch\<close> requests the location instead, at most 20 times.

  A server answers a request with a response and, possibly, a Location header: absent,
  not a valid HTTP(S) address, or an address.
\<close>

datatype location_header = NoLocation | InvalidLocation | Location js_string

record wire_response =
  answer :: response
  location :: location_header

type_synonym endpoint = "http_request \<Rightarrow> js_error + wire_response"

definition redirect_status :: "nat \<Rightarrow> bool" where
  "redirect_status s = (s = 301 \<or> s = 302 \<or> s = 303 \<or> s = 307 \<or> s = 308)"

definition ascii_lowercase :: "js_string \<Rightarrow> js_string" where
  "ascii_lowercase s = map (\<lambda>c. if 0x41 \<le> c \<and> c \<le> 0x5A then c + 0x20 else c) s"

definition request_body_header :: "js_string \<Rightarrow> bool" where
  "request_body_header name =
     (ascii_lowercase name \<in> set [ascii ''content-encoding'', ascii ''content-language'',
                                   ascii ''content-location'', ascii ''content-type''])"

text \<open>
  The request for the location: after 301 or 302 a POST becomes a GET without body and
  without the headers that describe a body, and so does every method but GET and HEAD
  after 303; otherwise (307, 308) method, headers and body are kept.
\<close>

definition redirected :: "http_request \<Rightarrow> nat \<Rightarrow> js_string \<Rightarrow> http_request" where
  "redirected req s url =
     (if ((s = 301 \<or> s = 302) \<and> req_method req = ascii ''POST'') \<or>
         (s = 303 \<and> req_method req \<noteq> ascii ''GET'' \<and> req_method req \<noteq> ascii ''HEAD'')
      then \<lparr>req_url = url, req_method = ascii ''GET'',
            req_headers = filter (\<lambda>(name, v). \<not> request_body_header name) (req_headers req),
            req_body = []\<rparr>
      else req\<lparr>req_url := url\<rparr>)"

text \<open>
  What \<open>fetch\<close> settles with when the server is \<open>ep\<close> and \<open>n\<close> more redirects may be
  followed. A failure of the transport, an unusable Location and a redirect beyond the
  limit reject the promise.
\<close>

fun http_redirect_fetch :: "nat \<Rightarrow> endpoint \<Rightarrow> http_request \<Rightarrow> js_error + response" where
  "http_redirect_fetch n ep req =
     (case ep req of
        Inl e \<Rightarrow> Inl e
      | Inr wr \<Rightarrow>
          if redirect_status (status (answer wr)) then
            (case location wr of
               NoLocation \<Rightarrow> Inr (answer wr)
             | InvalidLocation \<Rightarrow> Inl (TypeError (ascii ''fetch failed''))
             | Location url \<Rightarrow>
                 (case n of
                    0 \<Rightarrow> Inl (TypeError (ascii ''fetch failed''))
                  | Suc m \<Rightarrow> http_redirect_fetch m ep (redirected req (status (answer wr)) url)))
          else Inr (answer wr))"

declare http_redirect_fetch.simps [simp del]

definition fetch_following :: "endpoint \<Rightarrow> network" where
  "fetch_following ep earlier req = http_redirect_fetch 20 ep req"

section \<open>text.js: sendWeChatTextMessage\<close>

definition WECHAT_API_URL :: "js_string \<Rightarrow> js_string" where
  "WECHAT_API_URL webhookKey =
     ascii ''https://qyapi.weixin.qq.com/cgi-bin/webhook/send?key='' @ webhookKey"

definition headers :: "(js_string \<times> js_string) list" where
  "headers = [(ascii ''Content-Type'', ascii ''application/json'')]"

text \<open>
  Lines 6 to 17. The inner object is reachable only through \<open>bodyPayload.text\<close>, so its
  two conditional assignments are applied to its property list before the list is put
  under \<open>text\<close>. An argument that was not passed (\<open>undefined\<close>) is \<open>None\<close>.
\<close>

definition bodyPayload :: "js_string \<Rightarrow> js_string list option \<Rightarrow> js_string list option \<Rightarrow> js_data" where
  "bodyPayload content mentioned_list mentioned_mobile_list =
     (let text0 = [(ascii ''content'', Str content)];
          text1 =
            (case mentioned_list of
               None \<Rightarrow> text0
             | Some xs \<Rightarrow>
                 if length xs > 0
                 then set_field text0 (ascii ''mentioned_list'') (Arr (map Str xs))
                 else text0);
          text2 =
            (case mentioned_mobile_list of
               None \<Rightarrow> text1
             | Some ys \<Rightarrow>
                 if length ys > 0
                 then set_field text1 (ascii ''mentioned_mobile_list'') (Arr (map Str ys))
                 else text1)
      in Obj [(ascii ''msgtype'', Str (ascii ''text'')), (ascii ''text'', Obj text2)])"

definition request :: "js_string \<Rightarrow> js_string \<Rightarrow> js_string list option \<Rightarrow> js_string list option \<Rightarrow> http_request" where
  "request webhookKey content mentioned_list mentioned_mobile_list =
     \<lparr>req_url = WECHAT_API_URL webhookKey,
      req_method = ascii ''POST'',
      req_headers = headers,
      req_body = JSON_stringify (bodyPayload content mentioned_list mentioned_mobile_list)\<rparr>"

text \<open>
  Lines 20 to 32, the body of the \<open>try\<close>: \<open>Inl\<close> is an exception that leaves the block,
  \<open>Inr\<close> a value it returns.
\<close>

definition try_block :: "network \<Rightarrow> http_request \<Rightarrow> world \<Rightarrow> (js_error + bool) \<times> world" where
  "try_block net req w =
     (case fetch net req w of
        (Inl e, w1) \<Rightarrow> (Inl e, w1)
      | (Inr response, w1) \<Rightarrow>
          if \<not> ok response then
            (case text_result response of
               Inl e \<Rightarrow> (Inl e, w1)
             | Inr errorData \<Rightarrow>
                 (Inl (Error (ascii ''HTTP error! status: '' @ decimal (status response))),
                  console_write LevelError
                    [LString (ascii ''HTTP error! status: '' @ decimal (status response) @
                              ascii '', data: '' @ errorData)] w1))
          else
            (case json_result response of
               Inl e \<Rightarrow> (Inl e, w1)
             | Inr responseData \<Rightarrow>
                 (case get_prop responseData (ascii ''errcode'') of
                    Inl e \<Rightarrow> (Inl e, w1)
                  | Inr errcode \<Rightarrow>
                      if \<not> strict_equals_number errcode (Finite 0) then
                        (case get_prop responseData (ascii ''errmsg'') of
                           Inl e \<Rightarrow> (Inl e, w1)
                         | Inr errmsg \<Rightarrow>
                             (Inr False,
                              console_write LevelError
                                [LString (ascii ''Error sending WeChat message:''),
                                 LValue errmsg] w1))
                      else
                        (Inr True,
                         console_write LevelLog
                           [LString (ascii ''WeChat message sent successfully:''),
                            LValue responseData] w1))))"

text \<open>
  The whole function: the \<open>catch\<close> turns every exception of the block into \<open>false\<close>.
  The result is \<open>Inl\<close> when the promise the function returns rejects.
\<close>

definition sendWeChatTextMessage ::
  "network \<Rightarrow> js_string \<Rightarrow> js_string \<Rightarrow> js_string option \<Rightarrow> js_string list option \<Rightarrow>
   js_string list option \<Rightarrow> world \<Rightarrow> (js_error + bool) \<times> world" where
  "sendWeChatTextMessage net webhookKey content chatid mentioned_list mentioned_mobile_list w =
     (case try_block net (request webhookKey content mentioned_list mentioned_mobile_list) w of
        (Inr result, w') \<Rightarrow> (Inr result, w')
      | (Inl error, w') \<Rightarrow>
          (Inr False,
           console_write LevelError
             [LString (ascii ''Error sending WeChat message:''), LError error] w'))"

section \<open>The server: the message-send tool and the documentation resource\<close>

text \<open>The two texts of the tool handler, as UTF-16 code units (lines 56 and 65).\<close>

definition failure_text :: js_string where
  "failure_text = [0x4F01, 0x4E1A, 0x5FAE, 0x4FE1, 0x6D88, 0x606F, 0x53D1, 0x9001, 0x5931, 0x8D25]"

definition success_text :: js_string where
  "success_text = [0x4F01, 0x4E1A, 0x5FAE, 0x4FE1, 0x6D88, 0x606F, 0x53D1, 0x9001, 0x6210, 0x529F]"

text \<open>
  The handler of \<open>server.tool("sendWeChatTextMessage", ...)\<close>, lines 47 to 69. Its
  arguments have passed the schema: two strings, an optional string and two optional
  arrays of strings. An exception of the awaited call would leave the handler.
\<close>

definition sendWeChatTextMessage_tool ::
  "network \<Rightarrow> js_string \<Rightarrow> js_string \<Rightarrow> js_string option \<Rightarrow> js_string list option \<Rightarrow>
   js_string list option \<Rightarrow> world \<Rightarrow> (js_error + js_data) \<times> world" where
  "sendWeChatTextMessage_tool net webhookKey content chatid mentioned_list mentioned_mobile_list w =
     (case sendWeChatTextMessage net webhookKey content chatid mentioned_list
             mentioned_mobile_list w of
        (Inl e, w') \<Rightarrow> (Inl e, w')
      | (Inr success, w') \<Rightarrow>
          if \<not> success then
            (Inr (Obj [(ascii ''content'',
                        Arr [Obj [(ascii ''type'', Str (ascii ''text'')),
                                  (ascii ''text'', Str failure_text)]])]), w')
          else
            (Inr (Obj [(ascii ''content'',
                        Arr [Obj [(ascii ''type'', Str (ascii ''text'')),
                                  (ascii ''text'', Str success_text)]])]), w'))"

text \<open>The placeholder of the resource handler (line 93).\<close>

definition read_failed_text :: js_string where
  "read_failed_text = [0x8BFB, 0x53D6, 0x6587, 0x4EF6, 0x5931, 0x8D25]"

text \<open>
  What the resource handler asks of Node: the path of the running module
  (\<open>fileURLToPath(import.meta.url)\<close>, which may throw), \<open>path.dirname\<close>, \<open>path.join\<close>, and
  the file system behind \<open>fs.promises.readFile(p, 'utf-8')\<close>, which may reject.
\<close>

record node_env =
  fileURLToPath_module :: "js_error + js_string"
  path_dirname :: "js_string \<Rightarrow> js_string"
  path_join :: "js_string list \<Rightarrow> js_string"
  readFile :: "js_string \<Rightarrow> js_error + js_string"

record URL =
  href :: js_string

text \<open>The path the handler reads (lines 78 to 80), when the module path is known.\<close>

definition filePath :: "node_env \<Rightarrow> js_string \<Rightarrow> js_string" where
  "filePath env filename =
     path_join env [path_dirname env filename, ascii ''..'', ascii ''assets'', ascii ''api.md'']"

text \<open>Lines 77 to 88, the body of the \<open>try\<close> of the resource handler.\<close>

definition api_try_block :: "node_env \<Rightarrow> URL \<Rightarrow> world \<Rightarrow> (js_error + js_data) \<times> world" where
  "api_try_block env uri w =
     (let w1 = console_write LevelInfo [LUrl (href uri)] w in
      case fileURLToPath_module env of
        Inl e \<Rightarrow> (Inl e, w1)
      | Inr filename \<Rightarrow>
          (case readFile env (filePath env filename) of
             Inl e \<Rightarrow> (Inl e, w1)
           | Inr content \<Rightarrow>
               (Inr (Obj [(ascii ''contents'',
                           Arr [Obj [(ascii ''uri'', Str (href uri)),
                                     (ascii ''text'', Str content)]])]), w1)))"

text \<open>The handler of \<open>server.resource("api", ...)\<close>, lines 75 to 97.\<close>

definition api_resource :: "node_env \<Rightarrow> URL \<Rightarrow> world \<Rightarrow> (js_error + js_data) \<times> world" where
  "api_resource env uri w =
     (case api_try_block env uri w of
        (Inr result, w') \<Rightarrow> (Inr result, w')
      | (Inl error, w') \<Rightarrow>
          (Inr (Obj [(ascii ''contents'',
                      Arr [Obj [(ascii ''uri'', Str (href uri)),
                                (ascii ''text'', Str read_failed_text)]])]), w'))"

section \<open>Facts about sendWeChatTextMessage\<close>

text \<open>Every path through the function hands exactly one request to \<open>fetch\<close>.\<close>

lemma try_block_sent:
  "sent (snd (try_block net req w)) = sent w @ [req]"
  by (simp add: try_block_def fetch_def console_write_def split: sum.splits)

lemma sendWeChatTextMessage_sent:
  "sent (snd (sendWeChatTextMessage net webhookKey content chatid mentioned_list
                mentioned_mobile_list w)) =
   sent w @ [request webhookKey content mentioned_list mentioned_mobile_list]"
proof -
  let ?req = "request webhookKey content mentioned_list mentioned_mobile_list"
  obtain res w' where t: "try_block net ?req w = (res, w')"
    by (cases "try_block net ?req w")
  with try_block_sent [of net ?req w] have "sent w' = sent w @ [?req]"
    by simp
  with t show ?thesis
    by (simp add: sendWeChatTextMessage_def console_write_def split: sum.splits)
qed

text \<open>
  The value of the function, read off the answer of the remote side: \<open>true\<close> exactly when
  the request was answered, with a status in the success range, a body that parses, and
  an \<open>errcode\<close> that is the number 0.
\<close>

lemma try_block_result:
  "fst (try_block net req w) =
     (case net (sent w) req of
        Inl e \<Rightarrow> Inl e
      | Inr r \<Rightarrow>
          if \<not> ok r then
            (case text_result r of
               Inl e \<Rightarrow> Inl e
             | Inr errorData \<Rightarrow> Inl (Error (ascii ''HTTP error! status: '' @ decimal (status r))))
          else
            (case json_result r of
               Inl e \<Rightarrow> Inl e
             | Inr responseData \<Rightarrow>
                 (case get_prop responseData (ascii ''errcode'') of
                    Inl e \<Rightarrow> Inl e
                  | Inr errcode \<Rightarrow>
                      if strict_equals_number errcode (Finite 0) then Inr True
                      else (case get_prop responseData (ascii ''errmsg'') of
                              Inl e \<Rightarrow> Inl e
                            | Inr errmsg \<Rightarrow> Inr False))))"
  by (simp add: try_block_def fetch_def split: sum.splits)

lemma sendWeChatTextMessage_result:
  "fst (sendWeChatTextMessage net webhookKey content chatid mentioned_list
          mentioned_mobile_list w) =
     Inr (case fst (try_block net
                      (request webhookKey content mentioned_list mentioned_mobile_list) w) of
            Inl e \<Rightarrow> False
          | Inr result \<Rightarrow> result)"
  by (simp add: sendWeChatTextMessage_def split: prod.splits sum.splits)

section \<open>The outcome of a dispatch\<close>

text \<open>
  C1. Whenever the remote side answers the request with a status in the success range
  and a body that parses to a value whose \<open>errcode\<close> is the number 0,
  \<open>sendWeChatTextMessage\<close> returns \<open>true\<close>.
\<close>

theorem C1_success_status_and_zero_errcode_returns_true:
  assumes "net (sent w) (request webhookKey content mentioned_list mentioned_mobile_list) = Inr r"
    and "ok r"
    and "json_result r = Inr responseData"
    and "get_prop responseData (ascii ''errcode'') = Inr errcode"
    and "strict_equals_number errcode (Finite 0)"
  shows "fst (sendWeChatTextMessage net webhookKey content chatid mentioned_list
                mentioned_mobile_list w) = Inr True"
  using assms by (simp add: sendWeChatTextMessage_result try_block_result)

theorem C1_witness:
  \<open>fst (sendWeChatTextMessage
          (\<lambda>earlier req.
             Inr \<lparr>status = 200, text_result = Inr (ascii ''{"errcode":0,"errmsg":"ok"}''),
                  json_result = Inr (VObject [(ascii ''errcode'', VNumber (Finite 0)),
                                              (ascii ''errmsg'', VString (ascii ''ok''))])\<rparr>)
          (ascii ''K'') (ascii ''hello'') None None None \<lparr>sent = [], console = []\<rparr>) =
   Inr True\<close>
proof -
  let ?d = "VObject [(ascii ''errcode'', VNumber (Finite 0)),
                     (ascii ''errmsg'', VString (ascii ''ok''))]"
  let ?r = \<open>\<lparr>status = 200, text_result = Inr (ascii ''{"errcode":0,"errmsg":"ok"}''),
             json_result = Inr ?d\<rparr>\<close>
  have h1: "(\<lambda>earlier req. Inr ?r) (sent \<lparr>sent = [], console = []\<rparr>)
              (request (ascii ''K'') (ascii ''hello'') None None) = Inr ?r"
    by simp
  have h2: "ok ?r"
    by (simp add: ok_def)
  have h3: "json_result ?r = Inr ?d"
    by simp
  have h4: "get_prop ?d (ascii ''errcode'') = Inr (VNumber (Finite 0))"
    by (simp add: get_prop_def ascii_def)
  have h5: "strict_equals_number (VNumber (Finite 0)) (Finite 0)"
    by (simp add: strict_equals_number_def)
  show ?thesis
    by (rule C1_success_status_and_zero_errcode_returns_true [OF h1 h2 h3 h4 h5])
qed

text \<open>
  C2, amended. \<open>sendWeChatTextMessage\<close> returns \<open>false\<close> whenever the response that
  \<open>fetch\<close> settles with (the answer of the server, or the answer at the end of the
  redirects that \<open>fetch\<close> followed) has a status of 300 or more, whatever the body is, and
  also when that status is 200 and the \<open>errcode\<close> of the body is not the number 0.

  Of every status of 300 or more that the server answers with, this does not hold: see
  \<open>C2_counterexample\<close> below.
\<close>

theorem C2_bad_status_or_nonzero_errcode_returns_false:
  assumes "net (sent w) (request webhookKey content mentioned_list mentioned_mobile_list) = Inr r"
  shows "(300 \<le> status r \<longrightarrow>
            fst (sendWeChatTextMessage net webhookKey content chatid mentioned_list
                   mentioned_mobile_list w) = Inr False)
         \<and> (status r = 200 \<and> json_result r = Inr responseData \<and>
            get_prop responseData (ascii ''errcode'') = Inr errcode \<and>
            \<not> strict_equals_number errcode (Finite 0) \<longrightarrow>
            fst (sendWeChatTextMessage net webhookKey content chatid mentioned_list
                   mentioned_mobile_list w) = Inr False)"
proof (intro conjI impI)
  assume "300 \<le> status r"
  then have "\<not> ok r"
    by (simp add: ok_def)
  with assms show "fst (sendWeChatTextMessage net webhookKey content chatid mentioned_list
                          mentioned_mobile_list w) = Inr False"
    by (simp add: sendWeChatTextMessage_result try_block_result split: sum.splits)
next
  assume a: "status r = 200 \<and> json_result r = Inr responseData \<and>
             get_prop responseData (ascii ''errcode'') = Inr errcode \<and>
             \<not> strict_equals_number errcode (Finite 0)"
  then have "ok r"
    by (simp add: ok_def)
  with assms a show "fst (sendWeChatTextMessage net webhookKey content chatid mentioned_list
                            mentioned_mobile_list w) = Inr False"
    by (simp add: sendWeChatTextMessage_result try_block_result split: sum.splits)
qed

theorem C2_witness:
  \<open>fst (sendWeChatTextMessage
          (\<lambda>earlier req.
             Inr \<lparr>status = 500, text_result = Inr (ascii ''{"errcode":0}''),
                  json_result = Inr (VObject [(ascii ''errcode'', VNumber (Finite 0))])\<rparr>)
          (ascii ''K'') (ascii ''hello'') None None None \<lparr>sent = [], console = []\<rparr>) =
   Inr False
   \<and> fst (sendWeChatTextMessage
          (\<lambda>earlier req.
             Inr \<lparr>status = 200, text_result = Inr (ascii ''{"errcode":93000}''),
                  json_result = Inr (VObject [(ascii ''errcode'', VNumber (Finite 93000))])\<rparr>)
          (ascii ''K'') (ascii ''hello'') None None None \<lparr>sent = [], console = []\<rparr>) =
   Inr False\<close>
proof -
  let ?w = "\<lparr>sent = [], console = []\<rparr>"
  let ?r1 = \<open>\<lparr>status = 500, text_result = Inr (ascii ''{"errcode":0}''),
              json_result = Inr (VObject [(ascii ''errcode'', VNumber (Finite 0))])\<rparr>\<close>
  let ?d2 = "VObject [(ascii ''errcode'', VNumber (Finite 93000))]"
  let ?r2 = \<open>\<lparr>status = 200, text_result = Inr (ascii ''{"errcode":93000}''),
              json_result = Inr ?d2\<rparr>\<close>
  have n1: "(\<lambda>earlier req. Inr ?r1) (sent ?w)
              (request (ascii ''K'') (ascii ''hello'') None None) = Inr ?r1"
    by simp
  have n2: "(\<lambda>earlier req. Inr ?r2) (sent ?w)
              (request (ascii ''K'') (ascii ''hello'') None None) = Inr ?r2"
    by simp
  have s1: "300 \<le> status ?r1"
    by simp
  have s2: "status ?r2 = 200 \<and> json_result ?r2 = Inr ?d2 \<and>
            get_prop ?d2 (ascii ''errcode'') = Inr (VNumber (Finite 93000)) \<and>
            \<not> strict_equals_number (VNumber (Finite 93000)) (Finite 0)"
    by (simp add: get_prop_def strict_equals_number_def ascii_def)
  from s1 C2_bad_status_or_nonzero_errcode_returns_false [OF n1, where chatid = None]
  have "fst (sendWeChatTextMessage (\<lambda>earlier req. Inr ?r1) (ascii ''K'') (ascii ''hello'')
               None None None ?w) = Inr False"
    by blast
  moreover
  from s2 C2_bad_status_or_nonzero_errcode_returns_false
            [OF n2, where chatid = None and responseData = ?d2
               and errcode = "VNumber (Finite 93000)"]
  have "fst (sendWeChatTextMessage (\<lambda>earlier req. Inr ?r2) (ascii ''K'') (ascii ''hello'')
               None None None ?w) = Inr False"
    by blast
  ultimately show ?thesis
    by simp
qed

text \<open>
  A server that is not itself redirected gives its own answer to the caller, so for such
  an answer the amended statement speaks of the status the server returned.
\<close>

lemma http_redirect_fetch_final:
  assumes "ep req = Inr wr"
    and "\<not> (redirect_status (status (answer wr)) \<and> location wr \<noteq> NoLocation)"
  shows "http_redirect_fetch n ep req = Inr (answer wr)"
  using assms by (auto simp add: http_redirect_fetch.simps [of n ep req])

text \<open>
  The statement of C2 as it was written fails for a status that \<open>fetch\<close> follows. The
  server answers the POST with 302 and a Location, and the request for the location with
  200 and \<open>errcode\<close> 0: the status the server returned to the request of the program is
  302, and \<open>sendWeChatTextMessage\<close> returns \<open>true\<close>.
\<close>

theorem C2_counterexample:
  \<open>(\<lambda>req. if req_method req = ascii ''POST''
           then Inr \<lparr>answer = \<lparr>status = 302, text_result = Inr [],
                                 json_result = Inl (SyntaxError (ascii ''Unexpected end of JSON input''))\<rparr>,
                      location = Location (ascii ''https://example.com/ok'')\<rparr>
           else Inr \<lparr>answer = \<lparr>status = 200, text_result = Inr (ascii ''{"errcode":0}''),
                                 json_result = Inr (VObject [(ascii ''errcode'', VNumber (Finite 0))])\<rparr>,
                      location = NoLocation\<rparr>)
     (request (ascii ''K'') (ascii ''hello'') None None) =
     Inr \<lparr>answer = \<lparr>status = 302, text_result = Inr [],
                      json_result = Inl (SyntaxError (ascii ''Unexpected end of JSON input''))\<rparr>,
          location = Location (ascii ''https://example.com/ok'')\<rparr>
   \<and> (300::nat) \<le> 302
   \<and> fst (sendWeChatTextMessage
          (fetch_following
             (\<lambda>req. if req_method req = ascii ''POST''
                     then Inr \<lparr>answer = \<lparr>status = 302, text_result = Inr [],
                                           json_result = Inl (SyntaxError (ascii ''Unexpected end of JSON input''))\<rparr>,
                                location = Location (ascii ''https://example.com/ok'')\<rparr>
                     else Inr \<lparr>answer = \<lparr>status = 200, text_result = Inr (ascii ''{"errcode":0}''),
                                           json_result = Inr (VObject [(ascii ''errcode'', VNumber (Finite 0))])\<rparr>,
                                location = NoLocation\<rparr>))
          (ascii ''K'') (ascii ''hello'') None None None \<lparr>sent = [], console = []\<rparr>) =
     Inr True\<close>
  by (simp add: sendWeChatTextMessage_result try_block_result fetch_following_def
        http_redirect_fetch.simps request_def redirected_def redirect_status_def ok_def
        get_prop_def strict_equals_number_def ascii_def)

section \<open>The request that is sent\<close>

text \<open>
  C3. The payload has \<open>msgtype\<close> \<open>"text"\<close>, and under \<open>text\<close> an object whose \<open>content\<close> is
  the content of the request. That object has the property \<open>mentioned_list\<close> exactly when
  the list was passed and is not empty, and then the property is the array of the list's
  elements in their order; likewise for \<open>mentioned_mobile_list\<close>. A list that was not
  passed, or an empty one, gives no property.
\<close>

theorem C3_payload_fields:
  "get_field (bodyPayload content mentioned_list mentioned_mobile_list) (ascii ''msgtype'') =
     Some (Str (ascii ''text''))
   \<and> (\<exists>text.
         get_field (bodyPayload content mentioned_list mentioned_mobile_list) (ascii ''text'') =
           Some text
         \<and> get_field text (ascii ''content'') = Some (Str content)
         \<and> get_field text (ascii ''mentioned_list'') =
             (case mentioned_list of
                None \<Rightarrow> None
              | Some xs \<Rightarrow> if xs = [] then None else Some (Arr (map Str xs)))
         \<and> get_field text (ascii ''mentioned_mobile_list'') =
             (case mentioned_mobile_list of
                None \<Rightarrow> None
              | Some ys \<Rightarrow> if ys = [] then None else Some (Arr (map Str ys))))"
  by (simp add: bodyPayload_def get_field_def ascii_def split: option.splits)

text \<open>
  C4. A call hands one request to \<open>fetch\<close>: a POST to the webhook address with the key
  after \<open>?key=\<close>, with the single header \<open>Content-Type: application/json\<close>, and with the
  JSON text of the payload as its body. For the key \<open>K\<close> and the content \<open>hello\<close> the body
  is \<open>{"msgtype":"text","text":{"content":"hello"}}\<close>.
\<close>

theorem C4_single_post_request:
  \<open>sent (snd (sendWeChatTextMessage net webhookKey content chatid mentioned_list
                 mentioned_mobile_list w)) =
     sent w @ [request webhookKey content mentioned_list mentioned_mobile_list]
   \<and> req_method (request webhookKey content mentioned_list mentioned_mobile_list) = ascii ''POST''
   \<and> req_url (request webhookKey content mentioned_list mentioned_mobile_list) =
       ascii ''https://qyapi.weixin.qq.com/cgi-bin/webhook/send?key='' @ webhookKey
   \<and> req_headers (request webhookKey content mentioned_list mentioned_mobile_list) =
       [(ascii ''Content-Type'', ascii ''application/json'')]
   \<and> req_body (request webhookKey content mentioned_list mentioned_mobile_list) =
       JSON_stringify (bodyPayload content mentioned_list mentioned_mobile_list)
   \<and> req_body (request (ascii ''K'') (ascii ''hello'') None None) =
       ascii ''{"msgtype":"text","text":{"content":"hello"}}''\<close>
proof -
  have \<open>JSON_stringify (bodyPayload (ascii ''hello'') None None) =
          ascii ''{"msgtype":"text","text":{"content":"hello"}}''\<close>
    by (simp add: bodyPayload_def QuoteJSONString_def QuoteUnit_def ascii_def)
  then show ?thesis
    by (simp add: sendWeChatTextMessage_sent request_def WECHAT_API_URL_def headers_def)
qed

text \<open>
  C5. The \<open>chatid\<close> argument changes nothing: two calls that differ in it alone (passed
  or not, or passed with different values) have the same result and leave the same
  world, and so the same address and the same body in every request handed to \<open>fetch\<close>.
\<close>

theorem C5_chatid_has_no_effect:
  "sendWeChatTextMessage net webhookKey content chatid mentioned_list mentioned_mobile_list w =
   sendWeChatTextMessage net webhookKey content chatid' mentioned_list mentioned_mobile_list w
   \<and> map req_url (sent (snd (sendWeChatTextMessage net webhookKey content chatid mentioned_list
                               mentioned_mobile_list w))) =
     map req_url (sent (snd (sendWeChatTextMessage net webhookKey content chatid' mentioned_list
                               mentioned_mobile_list w)))
   \<and> map req_body (sent (snd (sendWeChatTextMessage net webhookKey content chatid mentioned_list
                                mentioned_mobile_list w))) =
     map req_body (sent (snd (sendWeChatTextMessage net webhookKey content chatid' mentioned_list
                                mentioned_mobile_list w)))"
  by (simp add: sendWeChatTextMessage_def)

text \<open>
  C8. A call hands exactly one request to \<open>fetch\<close>, on every path: the list of requests
  grows by one. Nothing is remembered between calls: a second, identical call hands the
  same request to \<open>fetch\<close> once more.
\<close>

theorem C8_one_request_per_call:
  "sent (snd (sendWeChatTextMessage net webhookKey content chatid mentioned_list
                mentioned_mobile_list w)) =
     sent w @ [request webhookKey content mentioned_list mentioned_mobile_list]
   \<and> length (sent (snd (sendWeChatTextMessage net webhookKey content chatid mentioned_list
                          mentioned_mobile_list w))) = length (sent w) + 1
   \<and> sent (snd (sendWeChatTextMessage net webhookKey content chatid mentioned_list
                  mentioned_mobile_list
                  (snd (sendWeChatTextMessage net webhookKey content chatid mentioned_list
                          mentioned_mobile_list w)))) =
     sent w @ [request webhookKey content mentioned_list mentioned_mobile_list,
               request webhookKey content mentioned_list mentioned_mobile_list]"
  by (simp add: sendWeChatTextMessage_sent)

text \<open>
  C10. The address is the fixed prefix followed by the key as it was passed, with nothing
  escaped; this is the address of the request handed to \<open>fetch\<close>. A key with \<open>&\<close>, \<open>#\<close> or
  a space in it puts these characters into the query of the address.
\<close>

theorem C10_key_is_interpolated_verbatim:
  \<open>WECHAT_API_URL webhookKey =
     ascii ''https://qyapi.weixin.qq.com/cgi-bin/webhook/send?key='' @ webhookKey
   \<and> map req_url (sent (snd (sendWeChatTextMessage net webhookKey content chatid mentioned_list
                               mentioned_mobile_list \<lparr>sent = [], console = []\<rparr>))) =
       [ascii ''https://qyapi.weixin.qq.com/cgi-bin/webhook/send?key='' @ webhookKey]
   \<and> WECHAT_API_URL (ascii ''K&debug=1#x y'') =
       ascii ''https://qyapi.weixin.qq.com/cgi-bin/webhook/send?key=K&debug=1#x y''\<close>
  by (simp add: sendWeChatTextMessage_sent request_def WECHAT_API_URL_def ascii_def)

section \<open>Exceptions stay inside\<close>

text \<open>
  C9. \<open>sendWeChatTextMessage\<close> never throws: on every input and every behaviour of the
  remote side its promise fulfils with a boolean. Each failure gives \<open>false\<close>: a rejected
  \<open>fetch\<close>; a status outside the success range (whether or not the body can then be
  read); and a status in the success range with a body that \<open>json()\<close> cannot read or
  parse.
\<close>

theorem C9_never_throws:
  "(\<exists>result w'.
      sendWeChatTextMessage net webhookKey content chatid mentioned_list mentioned_mobile_list w =
        (Inr result, w'))
   \<and> (net (sent w) (request webhookKey content mentioned_list mentioned_mobile_list) = Inl e
       \<or> (net (sent w) (request webhookKey content mentioned_list mentioned_mobile_list) = Inr r
           \<and> (\<not> ok r \<or> json_result r = Inl e)) \<longrightarrow>
       fst (sendWeChatTextMessage net webhookKey content chatid mentioned_list
              mentioned_mobile_list w) = Inr False)"
proof -
  obtain res w' where s:
    "sendWeChatTextMessage net webhookKey content chatid mentioned_list mentioned_mobile_list w =
       (res, w')"
    by (cases "sendWeChatTextMessage net webhookKey content chatid mentioned_list
                 mentioned_mobile_list w")
  with sendWeChatTextMessage_result [of net webhookKey content chatid mentioned_list
         mentioned_mobile_list w]
  obtain result where "res = Inr result"
    by auto
  with s have total: "\<exists>result w'.
      sendWeChatTextMessage net webhookKey content chatid mentioned_list mentioned_mobile_list w =
        (Inr result, w')"
    by simp
  have failures:
    "net (sent w) (request webhookKey content mentioned_list mentioned_mobile_list) = Inl e
       \<or> (net (sent w) (request webhookKey content mentioned_list mentioned_mobile_list) = Inr r
           \<and> (\<not> ok r \<or> json_result r = Inl e)) \<longrightarrow>
     fst (sendWeChatTextMessage net webhookKey content chatid mentioned_list
            mentioned_mobile_list w) = Inr False"
    by (auto simp add: sendWeChatTextMessage_result try_block_result split: sum.splits)
  from total failures show ?thesis
    by (rule conjI)
qed

theorem C9_witness:
  \<open>fst (sendWeChatTextMessage (\<lambda>earlier req. Inl (TypeError (ascii ''fetch failed'')))
          (ascii ''K'') (ascii ''hello'') None None None \<lparr>sent = [], console = []\<rparr>) =
   Inr False
   \<and> fst (sendWeChatTextMessage
            (\<lambda>earlier req.
               Inr \<lparr>status = 502, text_result = Inl (TypeError (ascii ''terminated'')),
                    json_result = Inl (TypeError (ascii ''terminated''))\<rparr>)
            (ascii ''K'') (ascii ''hello'') None None None \<lparr>sent = [], console = []\<rparr>) =
     Inr False
   \<and> fst (sendWeChatTextMessage
            (\<lambda>earlier req.
               Inr \<lparr>status = 200, text_result = Inr (ascii ''<html>''),
                    json_result = Inl (SyntaxError (ascii ''Unexpected token''))\<rparr>)
            (ascii ''K'') (ascii ''hello'') None None None \<lparr>sent = [], console = []\<rparr>) =
     Inr False\<close>
proof -
  let ?w = "\<lparr>sent = [], console = []\<rparr>"
  let ?r2 = "\<lparr>status = 502, text_result = Inl (TypeError (ascii ''terminated'')),
              json_result = Inl (TypeError (ascii ''terminated''))\<rparr>"
  let ?r3 = "\<lparr>status = 200, text_result = Inr (ascii ''<html>''),
              json_result = Inl (SyntaxError (ascii ''Unexpected token''))\<rparr>"
  from C9_never_throws
         [where net = "\<lambda>earlier req. Inl (TypeError (ascii ''fetch failed''))"
            and w = ?w and webhookKey = "ascii ''K''" and content = "ascii ''hello''"
            and chatid = None and mentioned_list = None and mentioned_mobile_list = None
            and e = "TypeError (ascii ''fetch failed'')"]
  have a: "fst (sendWeChatTextMessage (\<lambda>earlier req. Inl (TypeError (ascii ''fetch failed'')))
                  (ascii ''K'') (ascii ''hello'') None None None ?w) = Inr False"
    by simp
  from C9_never_throws
         [where net = "\<lambda>earlier req. Inr ?r2"
            and w = ?w and webhookKey = "ascii ''K''" and content = "ascii ''hello''"
            and chatid = None and mentioned_list = None and mentioned_mobile_list = None
            and r = ?r2]
  have b: "fst (sendWeChatTextMessage (\<lambda>earlier req. Inr ?r2)
                  (ascii ''K'') (ascii ''hello'') None None None ?w) = Inr False"
    by (simp add: ok_def)
  from C9_never_throws
         [where net = "\<lambda>earlier req. Inr ?r3"
            and w = ?w and webhookKey = "ascii ''K''" and content = "ascii ''hello''"
            and chatid = None and mentioned_list = None and mentioned_mobile_list = None
            and r = ?r3 and e = "SyntaxError (ascii ''Unexpected token'')"]
  have c: "fst (sendWeChatTextMessage (\<lambda>earlier req. Inr ?r3)
                  (ascii ''K'') (ascii ''hello'') None None None ?w) = Inr False"
    by simp
  from a b c show ?thesis
    by simp
qed

section \<open>What the handlers answer\<close>

text \<open>
  C6. For arguments that passed the schema, the tool handler always answers with the
  same envelope: \<open>content\<close> holding one block of type \<open>text\<close>. The text is the success
  text of line 65 when \<open>sendWeChatTextMessage\<close> returned \<open>true\<close> and the failure text of
  line 56 when it returned \<open>false\<close>; the two texts differ (in their last two
  characters). The handler does not throw, and the envelope has no \<open>isError\<close> property.
\<close>

theorem C6_tool_result_is_plain_text:
  "(\<exists>success w'.
      sendWeChatTextMessage net webhookKey content chatid mentioned_list mentioned_mobile_list w =
        (Inr success, w')
      \<and> sendWeChatTextMessage_tool net webhookKey content chatid mentioned_list
          mentioned_mobile_list w =
        (Inr (Obj [(ascii ''content'',
                    Arr [Obj [(ascii ''type'', Str (ascii ''text'')),
                              (ascii ''text'',
                               Str (if success
                                    then [0x4F01, 0x4E1A, 0x5FAE, 0x4FE1, 0x6D88, 0x606F, 0x53D1,
                                          0x9001, 0x6210, 0x529F]
                                    else [0x4F01, 0x4E1A, 0x5FAE, 0x4FE1, 0x6D88, 0x606F, 0x53D1,
                                          0x9001, 0x5931, 0x8D25]))]])]), w')
      \<and> get_field (Obj [(ascii ''content'',
                         Arr [Obj [(ascii ''type'', Str (ascii ''text'')),
                                   (ascii ''text'',
                                    Str (if success then success_text else failure_text))]])])
          (ascii ''isError'') = None)
   \<and> success_text =
       [0x4F01, 0x4E1A, 0x5FAE, 0x4FE1, 0x6D88, 0x606F, 0x53D1, 0x9001, 0x6210, 0x529F]
   \<and> failure_text =
       [0x4F01, 0x4E1A, 0x5FAE, 0x4FE1, 0x6D88, 0x606F, 0x53D1, 0x9001, 0x5931, 0x8D25]
   \<and> success_text \<noteq> failure_text"
proof -
  obtain res w' where s:
    "sendWeChatTextMessage net webhookKey content chatid mentioned_list mentioned_mobile_list w =
       (res, w')"
    by (cases "sendWeChatTextMessage net webhookKey content chatid mentioned_list
                 mentioned_mobile_list w")
  with sendWeChatTextMessage_result [of net webhookKey content chatid mentioned_list
         mentioned_mobile_list w]
  obtain success where "res = Inr success"
    by auto
  with s show ?thesis
    by (simp add: sendWeChatTextMessage_tool_def get_field_def ascii_def success_text_def
          failure_text_def)
qed

text \<open>
  The handler at two inputs: a rejected \<open>fetch\<close> is answered with the failure text, and
  a response with status 200 and \<open>errcode\<close> 0 with the success text.
\<close>

theorem C6_witness:
  \<open>fst (sendWeChatTextMessage_tool (\<lambda>earlier req. Inl (TypeError (ascii ''fetch failed'')))
          (ascii ''K'') (ascii ''hello'') None None None \<lparr>sent = [], console = []\<rparr>) =
   Inr (Obj [(ascii ''content'',
              Arr [Obj [(ascii ''type'', Str (ascii ''text'')),
                        (ascii ''text'',
                         Str [0x4F01, 0x4E1A, 0x5FAE, 0x4FE1, 0x6D88, 0x606F, 0x53D1, 0x9001,
                              0x5931, 0x8D25])]])])
   \<and> fst (sendWeChatTextMessage_tool
            (\<lambda>earlier req.
               Inr \<lparr>status = 200, text_result = Inr (ascii ''{"errcode":0}''),
                    json_result = Inr (VObject [(ascii ''errcode'', VNumber (Finite 0))])\<rparr>)
            (ascii ''K'') (ascii ''hello'') None None None \<lparr>sent = [], console = []\<rparr>) =
     Inr (Obj [(ascii ''content'',
                Arr [Obj [(ascii ''type'', Str (ascii ''text'')),
                          (ascii ''text'',
                           Str [0x4F01, 0x4E1A, 0x5FAE, 0x4FE1, 0x6D88, 0x606F, 0x53D1, 0x9001,
                                0x6210, 0x529F])]])])\<close>
proof -
  let ?w = "\<lparr>sent = [], console = []\<rparr>"
  let ?down = "\<lambda>earlier req. Inl (TypeError (ascii ''fetch failed''))
                 :: js_error + response"
  let ?up = \<open>\<lambda>earlier req.
               Inr \<lparr>status = 200, text_result = Inr (ascii ''{"errcode":0}''),
                    json_result = Inr (VObject [(ascii ''errcode'', VNumber (Finite 0))])\<rparr>
                 :: js_error + response\<close>
  have down: "fst (sendWeChatTextMessage ?down (ascii ''K'') (ascii ''hello'') None None None ?w) =
                Inr False"
    by (simp add: sendWeChatTextMessage_result try_block_result)
  have up: "fst (sendWeChatTextMessage ?up (ascii ''K'') (ascii ''hello'') None None None ?w) =
              Inr True"
    by (simp add: sendWeChatTextMessage_result try_block_result ok_def get_prop_def
          strict_equals_number_def ascii_def)
  from C6_tool_result_is_plain_text
         [where net = ?down and webhookKey = "ascii ''K''" and content = "ascii ''hello''"
            and chatid = None and mentioned_list = None and mentioned_mobile_list = None
            and w = ?w]
       down
  have a: "fst (sendWeChatTextMessage_tool ?down (ascii ''K'') (ascii ''hello'') None None None
                  ?w) =
           Inr (Obj [(ascii ''content'',
              Arr [Obj [(ascii ''type'', Str (ascii ''text'')),
                        (ascii ''text'',
                         Str [0x4F01, 0x4E1A, 0x5FAE, 0x4FE1, 0x6D88, 0x606F, 0x53D1, 0x9001,
                              0x5931, 0x8D25])]])])"
    by auto
  from C6_tool_result_is_plain_text
         [where net = ?up and webhookKey = "ascii ''K''" and content = "ascii ''hello''"
            and chatid = None and mentioned_list = None and mentioned_mobile_list = None
            and w = ?w]
       up
  have b: "fst (sendWeChatTextMessage_tool ?up (ascii ''K'') (ascii ''hello'') None None None
                  ?w) =
           Inr (Obj [(ascii ''content'',
                Arr [Obj [(ascii ''type'', Str (ascii ''text'')),
                          (ascii ''text'',
                           Str [0x4F01, 0x4E1A, 0x5FAE, 0x4FE1, 0x6D88, 0x606F, 0x53D1, 0x9001,
                                0x6210, 0x529F])]])])"
    by auto
  from a b show ?thesis
    by (rule conjI)
qed

text \<open>
  C7. The resource handler never throws: it always answers with an envelope. When the
  documentation file cannot be read, the text of the answer is the fixed placeholder
  (and so it is when the path of the module cannot be determined).
\<close>

theorem C7_resource_never_throws:
  "(\<exists>result w'. api_resource env uri w = (Inr result, w'))
   \<and> (fileURLToPath_module env = Inl e
       \<or> (fileURLToPath_module env = Inr filename
           \<and> readFile env (filePath env filename) = Inl e) \<longrightarrow>
       fst (api_resource env uri w) =
         Inr (Obj [(ascii ''contents'',
                    Arr [Obj [(ascii ''uri'', Str (href uri)),
                              (ascii ''text'', Str read_failed_text)]])]))"
  by (auto simp add: api_resource_def api_try_block_def Let_def split: sum.splits)

theorem C7_witness:
  "fst (api_resource
          \<lparr>fileURLToPath_module = Inr (ascii ''/srv/build/index.js''),
           path_dirname = (\<lambda>p. ascii ''/srv/build''),
           path_join = (\<lambda>ps. ascii ''/srv/assets/api.md''),
           readFile = (\<lambda>p. Inl (SystemError (ascii ''ENOENT'')))\<rparr>
          \<lparr>href = ascii ''file:///api.md''\<rparr> \<lparr>sent = [], console = []\<rparr>) =
   Inr (Obj [(ascii ''contents'',
              Arr [Obj [(ascii ''uri'', Str (ascii ''file:///api.md'')),
                        (ascii ''text'', Str [0x8BFB, 0x53D6, 0x6587, 0x4EF6, 0x5931, 0x8D25])]])])"
proof -
  let ?env = "\<lparr>fileURLToPath_module = Inr (ascii ''/srv/build/index.js''),
               path_dirname = (\<lambda>p. ascii ''/srv/build''),
               path_join = (\<lambda>ps. ascii ''/srv/assets/api.md''),
               readFile = (\<lambda>p. Inl (SystemError (ascii ''ENOENT'')))\<rparr>"
  from C7_resource_never_throws
         [where env = ?env and uri = "\<lparr>href = ascii ''file:///api.md''\<rparr>"
            and w = "\<lparr>sent = [], console = []\<rparr>"
            and e = "SystemError (ascii ''ENOENT'')"
            and filename = "ascii ''/srv/build/index.js''"]
  show ?thesis
    by (simp add: read_failed_text_def)
qed

end
